theory Spec2Isabelle
  imports Complex_Main
begin

section \<open>Telemetry data models\<close>

text \<open>
  The dataclass \<open>DroneState\<close> of \<^verbatim>\<open>gcs_interface_stub.py\<close>: eleven fields, in the
  order of the source. Python's \<open>int\<close> is \<open>int\<close>, \<open>str\<close> is \<open>string\<close>; a \<open>float\<close>
  field is a \<open>real\<close> (the only float the program ever stores is the literal \<open>0.0\<close>).
\<close>

record DroneState =
  drone_id :: int
  team_id :: string
  mission_time :: string
  altitude :: real
  battery :: int
  lat :: real
  lon :: real
  link_status :: string
  autonomy_mode :: string
  geofence_breach :: int
  payload_status :: string

text \<open>
  \<open>DroneState(drone_id)\<close>: the generated constructor with every default of the
  dataclass taken.
\<close>

definition DroneState_init :: "int \<Rightarrow> DroneState" where
  "DroneState_init i =
     \<lparr>drone_id = i, team_id = ''1000'', mission_time = ''--:--:--'', altitude = 0,
      battery = 0, lat = 0, lon = 0, link_status = ''GOOD'', autonomy_mode = ''AUTO'',
      geofence_breach = 0, payload_status = ''NONE''\<rparr>"

text \<open>
  The dataclass \<open>DetectionEvent\<close>. Its fields carry the prefix \<open>ev_\<close> because
  \<open>drone_id\<close>, \<open>lat\<close> and \<open>lon\<close> are already fields of \<open>DroneState\<close>. The
  \<open>datetime\<close> timestamp is a number of seconds.
\<close>

record DetectionEvent =
  ev_timestamp :: int
  ev_drone_id :: int
  ev_detection_type :: string
  ev_confidence :: real
  ev_lat :: real
  ev_lon :: real

section \<open>The main window\<close>

text \<open>
  The slots of the window that a signal can be connected to. The source connects one:
  \<open>self.update_telemetry\<close>.
\<close>

datatype slot = Update_telemetry

text \<open>
  What the program uses of Qt's \<open>QTimer\<close>: the interval in milliseconds, whether the
  timer runs, and the slots connected to its \<open>timeout\<close> signal. \<open>QTimer()\<close> is
  stopped, with interval 0 and nothing connected.
\<close>

record QTimer =
  interval :: int
  active :: bool
  connected :: "slot list"

definition QTimer_new :: QTimer where
  "QTimer_new = \<lparr>interval = 0, active = False, connected = []\<rparr>"

definition timeout_connect :: "slot \<Rightarrow> QTimer \<Rightarrow> QTimer" where
  "timeout_connect f t = t\<lparr>connected := connected t @ [f]\<rparr>"

definition start :: "int \<Rightarrow> QTimer \<Rightarrow> QTimer" where
  "start msec t = t\<lparr>interval := msec, active := True\<rparr>"

text \<open>
  The attributes of \<open>NIDAR_GCS\<close> that hold data: the dictionary \<open>drone_states\<close>, the
  list \<open>detection_events\<close> and the timer, which does not exist before
  \<open>init_timers\<close> has run. The widgets the window owns are the extension part of the
  record.
\<close>

record NIDAR_GCS =
  drone_states :: "int \<rightharpoonup> DroneState"
  detection_events :: "DetectionEvent list"
  telemetry_timer :: "QTimer option"

text \<open>
  \<open>init_ui\<close> builds the widget tree (title, geometry, panels, log); it assigns none of
  the three attributes above.
\<close>

definition init_ui :: "'a NIDAR_GCS_scheme \<Rightarrow> 'a NIDAR_GCS_scheme" where
  "init_ui self = self"

definition init_timers :: "'a NIDAR_GCS_scheme \<Rightarrow> 'a NIDAR_GCS_scheme" where
  "init_timers self =
     self\<lparr>telemetry_timer := Some (start 1000 (timeout_connect Update_telemetry QTimer_new))\<rparr>"

text \<open>\<open>update_telemetry\<close>: the body is \<open>pass\<close>.\<close>

definition update_telemetry :: "'a NIDAR_GCS_scheme \<Rightarrow> 'a NIDAR_GCS_scheme" where
  "update_telemetry self = self"

text \<open>\<open>NIDAR_GCS.__init__\<close>.\<close>

definition NIDAR_GCS_init :: NIDAR_GCS where
  "NIDAR_GCS_init =
     init_timers (init_ui
       \<lparr>drone_states = [1 \<mapsto> DroneState_init 1, 2 \<mapsto> DroneState_init 2],
        detection_events = [],
        telemetry_timer = None\<rparr>)"

text \<open>
  The event loop. One expiry of the timer calls the connected slots in the order of
  connection, when the timer exists and runs; \<open>ticks n\<close> is the window after \<open>n\<close>
  expiries. Nothing else in the program writes the window's data.
\<close>

fun call_slot :: "slot \<Rightarrow> 'a NIDAR_GCS_scheme \<Rightarrow> 'a NIDAR_GCS_scheme" where
  "call_slot Update_telemetry self = update_telemetry self"

definition timeout :: "'a NIDAR_GCS_scheme \<Rightarrow> 'a NIDAR_GCS_scheme" where
  "timeout self =
     (case telemetry_timer self of
        None \<Rightarrow> self
      | Some t \<Rightarrow> if active t then fold call_slot (connected t) self else self)"

fun ticks :: "nat \<Rightarrow> 'a NIDAR_GCS_scheme \<Rightarrow> 'a NIDAR_GCS_scheme" where
  "ticks 0 self = self"
| "ticks (Suc n) self = ticks n (timeout self)"

section \<open>Database integration\<close>

text \<open>
  \<open>MissionDatabase\<close> keeps one attribute, the path. Both logging methods have the body
  \<open>pass\<close>: they return the object as it was, and open no file.
\<close>

record MissionDatabase =
  db_path :: string

definition MissionDatabase_init :: "string \<Rightarrow> MissionDatabase" where
  "MissionDatabase_init p = \<lparr>db_path = p\<rparr>"

definition log_telemetry :: "MissionDatabase \<Rightarrow> DroneState \<Rightarrow> MissionDatabase" where
  "log_telemetry self drone_state = self"

definition log_detection :: "MissionDatabase \<Rightarrow> DetectionEvent \<Rightarrow> MissionDatabase" where
  "log_detection self detection = self"

section \<open>Telemetry parser\<close>

definition CSV_FIELDS :: "string list" where
  "CSV_FIELDS =
     [''DRONE_ID'', ''TEAM_ID'', ''MISSION_TIME'', ''PACKET_COUNT'', ''MODE'', ''STATE'',
      ''ALTITUDE'', ''TEMP'', ''PRESSURE'', ''VOLTAGE'',
      ''GYRO_R'', ''GYRO_P'', ''GYRO_Y'', ''ACCEL_R'', ''ACCEL_P'', ''ACCEL_Y'',
      ''MAG_R'', ''MAG_P'', ''MAG_Y'', ''GPS_TIME'', ''GPS_ALT'', ''LAT'', ''LON'', ''SATS'',
      ''BATTERY'', ''LINK_STATUS'', ''AUTONOMY_MODE'', ''GEOFENCE_BREACH'',
      ''PAYLOAD_STATUS'', ''DETECTION_FLAG'', ''DETECTION_TYPE'',
      ''DETECTION_CONF'', ''DETECTION_LAT'', ''DETECTION_LON'', ''CMD_ECHO'']"

text \<open>
  Modelled from the spec: the decode errors. The source declares no exception class
  and \<open>parse_packet\<close> raises nothing; these are the names the specification gives to
  the ways a decode may fail, so that a result of \<open>parse_packet\<close> can be compared
  with them.
\<close>

datatype DecodeError =
  FieldCountMismatch
  | FieldParseError string
  | FieldRangeError string

text \<open>
  \<open>TelemetryParser.parse_packet\<close>, a static method of type
  \<open>str -> Optional[DroneState]\<close> whose body is \<open>pass\<close>: it returns \<open>None\<close>. The
  left summand is an exception leaving the call.
\<close>

definition parse_packet :: "string \<Rightarrow> DecodeError + DroneState option" where
  "parse_packet csv_line = Inr None"

text \<open>
  A call of the static method from a program state: the method has no \<open>self\<close> and
  reads no global, so the state is handed back as it came.
\<close>

definition call_parse_packet ::
  "string \<Rightarrow> 'a NIDAR_GCS_scheme \<Rightarrow> (DecodeError + DroneState option) \<times> 'a NIDAR_GCS_scheme" where
  "call_parse_packet csv_line gcs = (parse_packet csv_line, gcs)"

text \<open>
  Modelled from the spec: the fields of a record. The source never splits the line;
  the specification speaks of one delimited record of 35 fields without naming the
  delimiter. \<open>split_on d s\<close> is what Python's \<open>s.split(d)\<close> returns for a
  one-character delimiter: the empty string has one empty field.
\<close>

fun split_on :: "char \<Rightarrow> string \<Rightarrow> string list" where
  "split_on d [] = [[]]"
| "split_on d (c # cs) =
     (if c = d then [] # split_on d cs
      else (case split_on d cs of
              [] \<Rightarrow> [[c]]
            | f # fs \<Rightarrow> (c # f) # fs))"

text \<open>
  Modelled from the spec: the field order of the telemetry wire format, as the
  section on external interfaces lists it.
\<close>

definition wire_format_fields :: "string list" where
  "wire_format_fields =
     [''DRONE_ID'', ''TEAM_ID'', ''MISSION_TIME'', ''PACKET_COUNT'', ''MODE'', ''STATE'',
      ''ALTITUDE'', ''TEMP'', ''PRESSURE'', ''VOLTAGE'', ''GYRO_R'', ''GYRO_P'',
      ''GYRO_Y'', ''ACCEL_R'', ''ACCEL_P'', ''ACCEL_Y'', ''MAG_R'', ''MAG_P'', ''MAG_Y'',
      ''GPS_TIME'', ''GPS_ALT'', ''LAT'', ''LON'', ''SATS'', ''BATTERY'', ''LINK_STATUS'',
      ''AUTONOMY_MODE'', ''GEOFENCE_BREACH'', ''PAYLOAD_STATUS'', ''DETECTION_FLAG'',
      ''DETECTION_TYPE'', ''DETECTION_CONF'', ''DETECTION_LAT'', ''DETECTION_LON'',
      ''CMD_ECHO'']"

section \<open>The event loop leaves the window's data alone\<close>

lemma fold_call_slot: "fold call_slot fs self = self"
proof (induction fs)
  case Nil
  show ?case by simp
next
  case (Cons f fs)
  have "call_slot f self = self"
    by (cases f) (simp add: update_telemetry_def)
  with Cons show ?case by simp
qed

lemma timeout_same: "timeout self = self"
  by (simp add: timeout_def fold_call_slot split: option.split)

lemma ticks_same: "ticks n self = self"
  by (induction n arbitrary: self) (simp_all add: timeout_same)

lemma init_drone_states:
  "drone_states NIDAR_GCS_init = [1 \<mapsto> DroneState_init 1, 2 \<mapsto> DroneState_init 2]"
  by (simp add: NIDAR_GCS_init_def init_timers_def init_ui_def)

lemma init_detection_events: "detection_events NIDAR_GCS_init = []"
  by (simp add: NIDAR_GCS_init_def init_timers_def init_ui_def)

section \<open>The field schema\<close>

text \<open>
  C3. The parser's schema \<open>CSV_FIELDS\<close> has exactly 35 names, and they are the names
  of the telemetry wire format in the same order, from \<open>DRONE_ID\<close> to \<open>CMD_ECHO\<close>;
  no name occurs twice.
\<close>

theorem CSV_FIELDS_wire_format:
  "length CSV_FIELDS = 35 \<and> CSV_FIELDS = wire_format_fields \<and> distinct CSV_FIELDS"
  by (simp add: CSV_FIELDS_def wire_format_fields_def)

section \<open>The parser\<close>

text \<open>
  C9. For every input string, malformed or not, \<open>parse_packet\<close> returns a value: no
  exception leaves the call.
\<close>

theorem parse_packet_never_raises:
  "(\<exists>r. parse_packet csv_line = Inr r) \<and> (\<forall>e. parse_packet csv_line \<noteq> Inl e)"
  by (simp add: parse_packet_def)

text \<open>
  C10. For every input string \<open>parse_packet\<close> returns \<open>None\<close> and never a
  \<open>DroneState\<close>; after any number of timer expiries the drone states are those of
  the start and the list of detection events is empty.
\<close>

theorem parse_packet_None:
  "parse_packet csv_line = Inr None
   \<and> (\<forall>st. parse_packet csv_line \<noteq> Inr (Some st))
   \<and> snd (call_parse_packet csv_line gcs) = gcs
   \<and> drone_states (ticks n NIDAR_GCS_init) = drone_states NIDAR_GCS_init
   \<and> detection_events (ticks n NIDAR_GCS_init) = []"
  by (simp add: parse_packet_def call_parse_packet_def ticks_same init_detection_events)

text \<open>
  C1, as the specification states it, fails. The record below has 35 comma-separated
  fields, each of the kind its position asks for (drone 1, packet 42, battery 85, a
  \<open>CROP\<close> detection of confidence 0.87), and \<open>parse_packet\<close> returns \<open>None\<close> for
  it, not a \<open>DroneState\<close>.
\<close>

theorem parse_packet_well_formed_counterexample:
  "length (split_on CHR '','' 
      ''1,1000,00:01:05,42,F,ASCENT,120.5,25.1,1002.3,7.4,0.1,0.2,0.3,0.0,0.1,9.8,10,20,30,12:00:05,121.0,12.9716,77.5946,9,85,GOOD,AUTO,0,READY,1,CROP,0.87,12.9717,77.5947,CXON'') = 35
   \<and> parse_packet 
      ''1,1000,00:01:05,42,F,ASCENT,120.5,25.1,1002.3,7.4,0.1,0.2,0.3,0.0,0.1,9.8,10,20,30,12:00:05,121.0,12.9716,77.5946,9,85,GOOD,AUTO,0,READY,1,CROP,0.87,12.9717,77.5947,CXON'' = Inr None"
  by (simp add: parse_packet_def)

text \<open>
  C1, amended. For every record of 35 fields (the length of \<open>CSV_FIELDS\<close>), whatever
  the delimiter, \<open>parse_packet\<close> returns \<open>None\<close>: there is no snapshot to apply, and
  the stored state of every drone id is after the call what it was before.
\<close>

theorem parse_packet_well_formed_None:
  "length (split_on d csv_line) = length CSV_FIELDS \<Longrightarrow>
     parse_packet csv_line = Inr None
     \<and> (\<forall>i. drone_states (snd (call_parse_packet csv_line gcs)) i = drone_states gcs i)"
  by (simp add: parse_packet_def call_parse_packet_def)

text \<open>
  The amended C1 at the record of the counterexample, called from the window as
  constructed: drone 1 keeps its initial state.
\<close>

theorem parse_packet_well_formed_None_witness:
  "length (split_on CHR '','' 
      ''1,1000,00:01:05,42,F,ASCENT,120.5,25.1,1002.3,7.4,0.1,0.2,0.3,0.0,0.1,9.8,10,20,30,12:00:05,121.0,12.9716,77.5946,9,85,GOOD,AUTO,0,READY,1,CROP,0.87,12.9717,77.5947,CXON'') = length CSV_FIELDS
   \<and> parse_packet 
      ''1,1000,00:01:05,42,F,ASCENT,120.5,25.1,1002.3,7.4,0.1,0.2,0.3,0.0,0.1,9.8,10,20,30,12:00:05,121.0,12.9716,77.5946,9,85,GOOD,AUTO,0,READY,1,CROP,0.87,12.9717,77.5947,CXON'' = Inr None
   \<and> drone_states (snd (call_parse_packet 
      ''1,1000,00:01:05,42,F,ASCENT,120.5,25.1,1002.3,7.4,0.1,0.2,0.3,0.0,0.1,9.8,10,20,30,12:00:05,121.0,12.9716,77.5946,9,85,GOOD,AUTO,0,READY,1,CROP,0.87,12.9717,77.5947,CXON'' NIDAR_GCS_init)) 1 = Some (DroneState_init 1)"
proof -
  have h: "length (split_on CHR '','' 
      ''1,1000,00:01:05,42,F,ASCENT,120.5,25.1,1002.3,7.4,0.1,0.2,0.3,0.0,0.1,9.8,10,20,30,12:00:05,121.0,12.9716,77.5946,9,85,GOOD,AUTO,0,READY,1,CROP,0.87,12.9717,77.5947,CXON'') = length CSV_FIELDS"
    by (simp add: CSV_FIELDS_def)
  from parse_packet_well_formed_None [OF h, of NIDAR_GCS_init] h show ?thesis
    by (simp add: init_drone_states)
qed

text \<open>
  C2, as the specification states it, fails. A record of three fields is answered with
  \<open>None\<close>; no \<open>FieldCountMismatch\<close> is raised or returned.
\<close>

theorem parse_packet_short_counterexample:
  "length (split_on CHR '','' ''1,1000,00:01:05'') = 3
   \<and> parse_packet ''1,1000,00:01:05'' = Inr None
   \<and> parse_packet ''1,1000,00:01:05'' \<noteq> Inl FieldCountMismatch"
  by (simp add: parse_packet_def)

text \<open>
  C2, amended. For every record that splits into fewer than 35 fields, \<open>parse_packet\<close>
  returns \<open>None\<close>, and the program state, the drone state store with it, is unchanged
  by the call.
\<close>

theorem parse_packet_short_None:
  "length (split_on d csv_line) < length CSV_FIELDS \<Longrightarrow>
     call_parse_packet csv_line gcs = (Inr None, gcs)"
  by (simp add: parse_packet_def call_parse_packet_def)

text \<open>The amended C2 at the three-field record, called from the window as constructed.\<close>

theorem parse_packet_short_None_witness:
  "length (split_on CHR '','' ''1,1000,00:01:05'') < length CSV_FIELDS
   \<and> call_parse_packet ''1,1000,00:01:05'' NIDAR_GCS_init = (Inr None, NIDAR_GCS_init)"
proof -
  have h: "length (split_on CHR '','' ''1,1000,00:01:05'') < length CSV_FIELDS"
    by (simp add: CSV_FIELDS_def)
  from parse_packet_short_None [OF h] h show ?thesis by simp
qed

section \<open>The database\<close>

lemma fold_log_telemetry: "fold (\<lambda>st db. log_telemetry db st) sts self = self"
  by (induction sts) (simp_all add: log_telemetry_def)

lemma fold_log_detection: "fold (\<lambda>d db. log_detection db d) ds self = self"
  by (induction ds) (simp_all add: log_detection_def)

text \<open>
  C5, as the specification states it, fails. Logging the state of drone 1 and logging
  the different state of drone 2 leave the same database object, the one that was
  there before: nothing of the snapshot is kept, so no query could give it back.
\<close>

theorem log_telemetry_counterexample:
  "DroneState_init 1 \<noteq> DroneState_init 2
   \<and> log_telemetry (MissionDatabase_init ''mission_data.db'') (DroneState_init 1)
       = MissionDatabase_init ''mission_data.db''
   \<and> log_telemetry (MissionDatabase_init ''mission_data.db'') (DroneState_init 2)
       = MissionDatabase_init ''mission_data.db''"
  by (simp add: log_telemetry_def DroneState_init_def)

text \<open>
  C5, amended. \<open>log_telemetry\<close> and \<open>log_detection\<close> accept the snapshot or the
  event and record nothing: the database object is after the call, and after any
  sequence of such calls, what it was before.
\<close>

theorem log_records_nothing:
  "log_telemetry self drone_state = self
   \<and> log_detection self detection = self
   \<and> fold (\<lambda>st db. log_telemetry db st) sts self = self
   \<and> fold (\<lambda>d db. log_detection db d) ds self = self"
proof -
  have "log_telemetry self drone_state = self"
    by (simp add: log_telemetry_def)
  moreover have "log_detection self detection = self"
    by (simp add: log_detection_def)
  ultimately show ?thesis
    using fold_log_telemetry [of sts self] fold_log_detection [of ds self] by simp
qed

section \<open>The window's data over a session\<close>



text \<open>
  C7. Constructing the window creates a \<open>DroneState\<close> for the ids 1 and 2 and no
  other, each with the default values; no timer expiry and no call of the parser
  changes or removes an entry.
\<close>

theorem drone_states_lifecycle:
  "dom (drone_states NIDAR_GCS_init) = {1, 2}
   \<and> drone_states NIDAR_GCS_init 1 =
       Some \<lparr>drone_id = 1, team_id = ''1000'', mission_time = ''--:--:--'', altitude = 0,
             battery = 0, lat = 0, lon = 0, link_status = ''GOOD'', autonomy_mode = ''AUTO'',
             geofence_breach = 0, payload_status = ''NONE''\<rparr>
   \<and> drone_states NIDAR_GCS_init 2 =
       Some \<lparr>drone_id = 2, team_id = ''1000'', mission_time = ''--:--:--'', altitude = 0,
             battery = 0, lat = 0, lon = 0, link_status = ''GOOD'', autonomy_mode = ''AUTO'',
             geofence_breach = 0, payload_status = ''NONE''\<rparr>
   \<and> drone_states (ticks n NIDAR_GCS_init) = drone_states NIDAR_GCS_init
   \<and> drone_states (snd (call_parse_packet csv_line gcs)) = drone_states gcs"
  by (auto simp add: ticks_same init_drone_states DroneState_init_def call_parse_packet_def)

text \<open>
  C8. The telemetry timer is started with an interval of 1000 ms and
  \<open>update_telemetry\<close> as its only slot; the slot, and with it an expiry of the timer,
  returns the window unchanged: \<open>drone_states\<close>, \<open>detection_events\<close> and whatever
  else the window holds.
\<close>

theorem update_telemetry_noop:
  "telemetry_timer NIDAR_GCS_init =
     Some \<lparr>interval = 1000, active = True, connected = [Update_telemetry]\<rparr>
   \<and> update_telemetry self = self
   \<and> timeout self = self
   \<and> drone_states (timeout self) = drone_states self
   \<and> detection_events (timeout self) = detection_events self"
  by (simp add: timeout_same update_telemetry_def NIDAR_GCS_init_def init_timers_def
        init_ui_def start_def timeout_connect_def QTimer_new_def)

end
